theory Spec2Isabelle
  imports Main
begin

section \<open>cjsocks: the name registry, address selection and name derivation of cjsocks.go\<close>

text \<open>
  A shallow embedding of \<^verbatim>\<open>cjsocks.go\<close>. Go strings are byte sequences, as
  \<open>string\<close> is here, so \<open>length\<close> is Go's \<open>len\<close>. A Go map read \<open>m[k]\<close> gives the
  zero value \<open>""\<close> for a key that is not there; a Go map is a \<open>string \<rightharpoonup> string\<close> and the
  read is \<open>index\<close>. A nil pointer dereference and a slice expression out of range end the
  goroutine with a runtime panic; the model returns them as errors.
\<close>

subsection \<open>Constants (lines 49-61)\<close>

definition default_base_domain :: string where
  "default_base_domain = ''container''"

definition default_cj_network_name :: string where
  "default_cj_network_name = ''cj-socks5''"

definition label_cj_hostname :: string where
  "label_cj_hostname = ''org.cj-tools.hosts.host_name''"

definition label_docker_compose_service :: string where
  "label_docker_compose_service = ''com.docker.compose.service''"

definition label_docker_compose_project :: string where
  "label_docker_compose_project = ''com.docker.compose.project''"

definition label_cj_subdomain :: string where
  "label_cj_subdomain = ''org.cj-tools.hosts.sub_domain''"

definition label_cj_domain :: string where
  "label_cj_domain = ''org.cj-tools.hosts.domain_name''"

definition label_cj_flag_use_container_base_domain :: string where
  "label_cj_flag_use_container_base_domain = ''org.cj-tools.hosts.use_container_base_domain''"

subsection \<open>Data\<close>

datatype panic = NilPointerDereference | SliceBoundsOutOfRange

text \<open>The read \<open>m[k]\<close> of a Go \<open>map[string]string\<close>.\<close>

definition index :: "(string \<rightharpoonup> string) \<Rightarrow> string \<Rightarrow> string" where
  "index m k = (case m k of None \<Rightarrow> [] | Some v \<Rightarrow> v)"

text \<open>
  The fields of the Docker client's structs that the program reads. A Go map is
  enumerated by \<open>range\<close> in an order the language leaves open: \<open>Networks\<close> and \<open>Ports\<close>
  are the lists of their entries in the order one \<open>range\<close> loop meets them, and every
  statement below holds for each order.
\<close>

record ContainerNetwork =
  IPAddress :: string

record PortBinding =
  HostIP :: string
  HostPort :: string

record NetworkSettings =
  Networks :: "(string \<times> ContainerNetwork) list"
  Ports :: "(string \<times> PortBinding list) list"

record Config =
  Hostname :: string
  Domainname :: string
  Labels :: "string \<rightharpoonup> string"

record Container =
  Name :: string
  Config :: Config
  NetworkSettings :: NetworkSettings

record APIEvents =
  ID :: string
  Action :: string

text \<open>
  The struct \<open>App\<close> of lines 63-69 (the emitter, which no function below reads, is left
  out). \<open>fqdnToIp\<close> is the registry.
\<close>

record App =
  fqdnToIp :: "string \<rightharpoonup> string"
  defaultBaseDomain :: string
  cjnetworkName :: string
  auto_add_to_cjnetwork :: bool

text \<open>
  \<open>client.InspectContainer(ID)\<close> with its error dropped, as every call site does
  (\<open>container, _ := ...\<close>): \<open>None\<close> is the nil container of a failed inspection.
\<close>

type_synonym client = "string \<Rightarrow> Container option"

subsection \<open>The registry: registerDomains and removeDomains (lines 256-271)\<close>

definition registerDomains :: "App \<Rightarrow> string list \<Rightarrow> string \<Rightarrow> App" where
  "registerDomains app domains ip =
     (if ip = [] then app
      else app\<lparr>fqdnToIp := fold (\<lambda>fqdn m. m(fqdn \<mapsto> ip)) domains (fqdnToIp app)\<rparr>)"

definition removeDomains :: "App \<Rightarrow> string list \<Rightarrow> App" where
  "removeDomains app domains =
     app\<lparr>fqdnToIp := fold (\<lambda>domain m. m(domain := None)) domains (fqdnToIp app)\<rparr>"

subsection \<open>getContainerIP (lines 273-315)\<close>

text \<open>
  \<open>strings.ToLower\<close> (line 293) is a function of Go's library, which lowers the letters of
  every script: it is the parameter \<open>ToLower\<close> of the functions that call it, and what is
  proved of them holds for every function put there.

  The loop over the network attachments, from the state \<open>firstip\<close> (\<open>ip\<close> is still empty
  while the loop runs); it returns \<open>(ip, firstip)\<close>. The \<open>break\<close> leaves the loop at the
  first attachment whose lower-cased name is \<open>app.cjnetworkName\<close>.
\<close>

fun scan_networks ::
  "(string \<Rightarrow> string) \<Rightarrow> string \<Rightarrow> (string \<times> ContainerNetwork) list \<Rightarrow> string \<Rightarrow> string \<times> string" where
  "scan_networks ToLower cj [] firstip = ([], firstip)"
| "scan_networks ToLower cj ((networkname, net) # rest) firstip =
     (let firstip' = (if firstip = [] then IPAddress net else firstip)
      in if ToLower networkname = cj then (IPAddress net, firstip')
         else scan_networks ToLower cj rest firstip')"

text \<open>
  The inner loop over one port's bindings: each binding overwrites \<open>ip\<close>, and the
  \<open>break\<close> leaves this loop only.
\<close>

fun scan_bindings :: "PortBinding list \<Rightarrow> string \<Rightarrow> string" where
  "scan_bindings [] ip = ip"
| "scan_bindings (b # bs) ip =
     (let ip' = HostIP b in if ip' \<noteq> [] then ip' else scan_bindings bs ip')"

text \<open>The outer loop over the ports: it runs to the end, whatever the inner loop found.\<close>

definition scan_ports :: "(string \<times> PortBinding list) list \<Rightarrow> string \<Rightarrow> string" where
  "scan_ports ports ip = fold (\<lambda>(port, bindings) ip. scan_bindings bindings ip) ports ip"

definition container_ip :: "(string \<Rightarrow> string) \<Rightarrow> string \<Rightarrow> Container \<Rightarrow> string" where
  "container_ip ToLower cj container =
     (let (ip, firstip) = scan_networks ToLower cj (Networks (NetworkSettings container)) [];
          ip = (if ip = [] then firstip else ip)
      in if ip = [] then scan_ports (Ports (NetworkSettings container)) ip else ip)"

definition getContainerIP ::
  "(string \<Rightarrow> string) \<Rightarrow> App \<Rightarrow> client \<Rightarrow> string \<Rightarrow> panic + string" where
  "getContainerIP ToLower app client cid =
     (case client cid of
        None \<Rightarrow> Inl NilPointerDereference
      | Some container \<Rightarrow> Inr (container_ip ToLower (cjnetworkName app) container))"

subsection \<open>getDomains (lines 354-421)\<close>

text \<open>
  Lines 363-375, the host part. \<open>s > ""\<close> on Go strings says that \<open>s\<close> is not empty.
  \<open>container.Name[1:]\<close> panics on the empty name.
\<close>

definition public_hostname :: "Container \<Rightarrow> panic + string" where
  "public_hostname container =
     (let labels = Labels (Config container);
          h = index labels label_cj_hostname;
          h = (if h = [] then index labels label_docker_compose_service else h)
      in if h = [] then
           (if length (Hostname (Config container)) \<noteq> 12 \<and> Hostname (Config container) \<noteq> []
            then Inr (Hostname (Config container))
            else if Name container = [] then Inl SliceBoundsOutOfRange
            else Inr (drop 1 (Name container)))
         else Inr h)"

text \<open>Lines 378-402, the name built from the host part.\<close>

definition fqdn_of :: "Container \<Rightarrow> string \<Rightarrow> string \<Rightarrow> string" where
  "fqdn_of container host defaultBase =
     (let labels = Labels (Config container);
          domainname = Domainname (Config container)
      in if index labels label_cj_flag_use_container_base_domain = ''true'' \<and> domainname \<noteq> []
         then host @ ''.'' @ domainname
         else (host @ ''.'')
              @ (if index labels label_cj_subdomain \<noteq> [] then index labels label_cj_subdomain @ ''.''
                 else if index labels label_docker_compose_project \<noteq> []
                 then index labels label_docker_compose_project @ ''.''
                 else [])
              @ (if index labels label_cj_domain \<noteq> [] then index labels label_cj_domain
                 else if index labels label_cj_flag_use_container_base_domain = ''true''
                         \<and> domainname \<noteq> []
                 then domainname
                 else defaultBase))"

definition getDomains :: "client \<Rightarrow> string \<Rightarrow> string \<Rightarrow> panic + string list" where
  "getDomains client cid defaultBase =
     (case client cid of
        None \<Rightarrow> Inl NilPointerDereference
      | Some container \<Rightarrow>
          (case public_hostname container of
             Inl e \<Rightarrow> Inl e
           | Inr host \<Rightarrow> Inr ([] @ [fqdn_of container host defaultBase])))"

subsection \<open>Resolve (lines 318-334)\<close>

text \<open>
  \<open>net.ResolveIPAddr("ip", s)\<close> is the system's resolver: a parameter, giving an error or
  an address. \<open>Resolve\<close> returns what the Go function returns beside the context it
  passes through (the error, or the \<open>IP\<close> of the address) and, with it, the strings it
  handed to the resolver, in order.
\<close>

record IPAddr =
  IP :: "nat list"
  Zone :: string

definition Resolve :: "(string \<Rightarrow> 'e + IPAddr) \<Rightarrow> App \<Rightarrow> string \<Rightarrow> ('e + nat list) \<times> string list" where
  "Resolve ResolveIPAddr app name =
     (let ip = index (fqdnToIp app) name;
          asked = (if ip \<noteq> [] then ip else name)
      in (case ResolveIPAddr asked of
            Inl err \<Rightarrow> Inl err
          | Inr addr \<Rightarrow> Inr (IP addr),
          [asked]))"

subsection \<open>The event loop of monitorDocker (lines 192-253)\<close>

text \<open>
  One turn of the loop, as a function of the registry: printing and the calls that
  connect a container to a network change nothing that this program reads. The three
  inspections of one \<open>start\<close> event are taken to see the same container.
\<close>

definition event_action :: "APIEvents \<Rightarrow> string" where
  "event_action event = takeWhile (\<lambda>c. c \<noteq> CHR '':'') (Action event)"

definition handle_event ::
  "(string \<Rightarrow> string) \<Rightarrow> client \<Rightarrow> App \<Rightarrow> APIEvents \<Rightarrow> panic + App" where
  "handle_event ToLower client app event =
     (let action = event_action event in
      if action \<in> {''exec_create'', ''exec_start'', ''exec_die''} then Inr app
      else if action = ''create'' then
        (if auto_add_to_cjnetwork app then
           (case client (ID event) of None \<Rightarrow> Inl NilPointerDereference | Some container \<Rightarrow> Inr app)
         else Inr app)
      else if action = ''start'' then
        (case client (ID event) of
           None \<Rightarrow> Inl NilPointerDereference
         | Some container \<Rightarrow>
             (case getContainerIP ToLower app client (ID event) of
                Inl e \<Rightarrow> Inl e
              | Inr ip \<Rightarrow>
                  (case getDomains client (ID event) (defaultBaseDomain app) of
                     Inl e \<Rightarrow> Inl e
                   | Inr domains \<Rightarrow> Inr (registerDomains app domains ip))))
      else if action \<in> {''destroy'', ''stop'', ''kill'', ''die''} then Inr app
      else if action = ''disconnect'' then Inr app
      else if action = ''connect'' then Inr app
      else Inr app)"

text \<open>The registry as \<open>main\<close> makes it (line 77).\<close>

definition new_app :: "string \<Rightarrow> bool \<Rightarrow> App" where
  "new_app base autoadd =
     \<lparr>fqdnToIp = Map.empty, defaultBaseDomain = (if base = [] then default_base_domain else base),
      cjnetworkName = default_cj_network_name, auto_add_to_cjnetwork = autoadd\<rparr>"

subsection \<open>Workloads used as concrete inputs\<close>

text \<open>
  A container as Docker reports it: the name with its leading slash, the hostname Docker
  generated (12 characters), no labels, attached to the network of cjsocks.
\<close>

definition web :: Container where
  "web = \<lparr>Name = ''/web'',
          Config = \<lparr>Hostname = ''0123456789ab'', Domainname = [], Labels = Map.empty\<rparr>,
          NetworkSettings =
            \<lparr>Networks = [(''cj-socks5'', \<lparr>IPAddress = ''10.0.0.2''\<rparr>)], Ports = []\<rparr>\<rparr>"

definition web_registered :: App where
  "web_registered = (new_app [] False)\<lparr>fqdnToIp := [''web.container'' \<mapsto> ''10.0.0.2'']\<rparr>"

text \<open>Attached to two networks; on the network of cjsocks it has no address.\<close>

definition two_nets :: Container where
  "two_nets = web\<lparr>NetworkSettings :=
      \<lparr>Networks = [(''bridge'', \<lparr>IPAddress = ''10.0.0.5''\<rparr>), (''cj-socks5'', \<lparr>IPAddress = []\<rparr>)],
       Ports = []\<rparr>\<rparr>"

text \<open>The same attachments, met in the other order.\<close>

definition two_nets_rev :: Container where
  "two_nets_rev = web\<lparr>NetworkSettings :=
      \<lparr>Networks = [(''cj-socks5'', \<lparr>IPAddress = []\<rparr>), (''bridge'', \<lparr>IPAddress = ''10.0.0.5''\<rparr>)],
       Ports = []\<rparr>\<rparr>"

text \<open>
  On the host's network only, with two ports bound: the first to an address of the
  host, the second to no address.
\<close>

definition two_ports :: Container where
  "two_ports = web\<lparr>NetworkSettings :=
      \<lparr>Networks = [(''host'', \<lparr>IPAddress = []\<rparr>)],
       Ports = [(''80/tcp'', [\<lparr>HostIP = ''192.168.1.4'', HostPort = ''8080''\<rparr>]),
                (''443/tcp'', [\<lparr>HostIP = [], HostPort = ''8443''\<rparr>])]\<rparr>\<rparr>"

text \<open>
  On a string of ASCII bytes \<open>strings.ToLower\<close> changes each of \<open>A\<close> to \<open>Z\<close> into its
  small letter and keeps every other byte. \<open>asciiToLower\<close> is that map; it stands for
  \<open>strings.ToLower\<close> at the concrete inputs only, whose network names are ASCII.
\<close>

definition asciiToLower :: "string \<Rightarrow> string" where
  "asciiToLower s =
     map (\<lambda>c. case map_of (zip ''ABCDEFGHIJKLMNOPQRSTUVWXYZ'' ''abcdefghijklmnopqrstuvwxyz'') c of
                 None \<Rightarrow> c
               | Some l \<Rightarrow> l) s"

text \<open>The workloads of the spec's examples of name derivation.\<close>

definition api :: Container where
  "api = \<lparr>Name = ''/backend_api_1'',
          Config = \<lparr>Hostname = ''api'', Domainname = ''svc.local'',
                    Labels = [label_cj_flag_use_container_base_domain \<mapsto> ''true'',
                              label_cj_subdomain \<mapsto> ''admin'',
                              label_cj_domain \<mapsto> ''internal'']\<rparr>,
          NetworkSettings = \<lparr>Networks = [], Ports = []\<rparr>\<rparr>"

definition svcweb :: Container where
  "svcweb = web\<lparr>Name := ''/svcweb''\<rparr>"

definition shop_web :: Container where
  "shop_web = web\<lparr>Config := \<lparr>Hostname = ''0123456789ab'', Domainname = [],
                                 Labels = [label_docker_compose_project \<mapsto> ''shop'']\<rparr>\<rparr>"

definition named_host :: Container where
  "named_host = web\<lparr>Config := \<lparr>Hostname = ''db'', Domainname = [], Labels = Map.empty\<rparr>\<rparr>"

definition twelve_host :: Container where
  "twelve_host = web\<lparr>Config := \<lparr>Hostname = ''my-host-name'', Domainname = [], Labels = Map.empty\<rparr>\<rparr>"

text \<open>A resolver that knows one address literal and no name.\<close>

definition one_address :: "string \<Rightarrow> string + IPAddr" where
  "one_address s =
     (if s = ''10.0.0.2'' then Inr \<lparr>IP = [10, 0, 0, 2], Zone = []\<rparr> else Inl ''no such host'')"

section \<open>Properties\<close>

lemmas label_defs =
  label_cj_hostname_def label_docker_compose_service_def label_docker_compose_project_def
  label_cj_subdomain_def label_cj_domain_def label_cj_flag_use_container_base_domain_def

lemmas example_defs =
  web_def web_registered_def two_nets_def two_nets_rev_def two_ports_def api_def svcweb_def shop_web_def named_host_def twelve_host_def new_app_def
  default_base_domain_def default_cj_network_name_def

subsection \<open>The registry\<close>

lemma fold_upd_apply:
  "fold (\<lambda>fqdn m. m(fqdn \<mapsto> ip)) ds m k = (if k \<in> set ds then Some ip else m k)"
  by (induction ds arbitrary: m) auto

lemma fold_del_apply:
  "fold (\<lambda>d m. m(d := None)) ds m k = (if k \<in> set ds then None else m k)"
  by (induction ds arbitrary: m) auto

lemma registerDomains_apply:
  "fqdnToIp (registerDomains app ds ip) k =
     (if ip \<noteq> [] \<and> k \<in> set ds then Some ip else fqdnToIp app k)"
  by (simp add: registerDomains_def fold_upd_apply)

lemma removeDomains_apply:
  "fqdnToIp (removeDomains app ds) k = (if k \<in> set ds then None else fqdnToIp app k)"
  by (simp add: removeDomains_def fold_del_apply)

lemma registerDomains_ran:
  assumes "[] \<notin> ran (fqdnToIp app)"
  shows "[] \<notin> ran (fqdnToIp (registerDomains app ds ip))"
  using assms by (auto simp: ran_def registerDomains_apply split: if_splits)

lemma removeDomains_ran:
  assumes "[] \<notin> ran (fqdnToIp app)"
  shows "[] \<notin> ran (fqdnToIp (removeDomains app ds))"
  using assms by (auto simp: ran_def removeDomains_apply split: if_splits)

lemma handle_event_ran:
  assumes "[] \<notin> ran (fqdnToIp app)" and "handle_event ToLower client app event = Inr app'"
  shows "[] \<notin> ran (fqdnToIp app')"
  using assms
  by (auto simp: handle_event_def Let_def registerDomains_ran
      split: if_splits option.splits sum.splits)

subsection \<open>Address selection\<close>

text \<open>
  What the loop over the attachments does find: the address of an attachment whose
  lower-cased name is the preferred name, when that address is not empty, in whatever
  order the attachments come (every such attachment having that address, as when there
  is one); and, when no attachment has that name, the first address that is not empty.
\<close>

lemma scan_networks_match:
  "(n, net) \<in> set nets \<Longrightarrow> ToLower n = cj \<Longrightarrow>
   \<forall>(n', net') \<in> set nets. ToLower n' = cj \<longrightarrow> IPAddress net' = a \<Longrightarrow>
   fst (scan_networks ToLower cj nets f) = a"
  by (induction ToLower cj nets f rule: scan_networks.induct) (auto simp: Let_def)

lemma scan_networks_no_match:
  "\<forall>(n', net') \<in> set nets. ToLower n' \<noteq> cj \<Longrightarrow>
   scan_networks ToLower cj nets f =
     ([], if f = [] then (case find (\<lambda>a. a \<noteq> []) (map (\<lambda>(n, net). IPAddress net) nets) of
                            None \<Rightarrow> [] | Some a \<Rightarrow> a) else f)"
  by (induction ToLower cj nets f rule: scan_networks.induct) (auto simp: Let_def)

lemma container_ip_match:
  assumes "(n, net) \<in> set (Networks (NetworkSettings c))" "ToLower n = cj" "IPAddress net \<noteq> []"
    "\<forall>(n', net') \<in> set (Networks (NetworkSettings c)).
        ToLower n' = cj \<longrightarrow> IPAddress net' = IPAddress net"
  shows "container_ip ToLower cj c = IPAddress net"
proof -
  have "fst (scan_networks ToLower cj (Networks (NetworkSettings c)) []) = IPAddress net"
    using assms(1,2,4) by (rule scan_networks_match)
  then show ?thesis
    using assms(3)
    by (cases "scan_networks ToLower cj (Networks (NetworkSettings c)) []")
      (simp add: container_ip_def)
qed

lemma container_ip_no_match:
  assumes "\<forall>(n', net') \<in> set (Networks (NetworkSettings c)). ToLower n' \<noteq> cj"
    "find (\<lambda>a. a \<noteq> []) (map (\<lambda>(n, net). IPAddress net) (Networks (NetworkSettings c))) = Some a"
  shows "container_ip ToLower cj c = a"
proof -
  from assms(2) have "a \<noteq> []" by (auto simp: find_Some_iff)
  then show ?thesis
    using assms by (simp add: container_ip_def scan_networks_no_match)
qed

subsection \<open>Name derivation\<close>

lemma getDomains_Some:
  "client cid = Some c \<Longrightarrow>
   getDomains client cid base =
     (case public_hostname c of Inl e \<Rightarrow> Inl e | Inr host \<Rightarrow> Inr [fqdn_of c host base])"
  by (simp add: getDomains_def split: sum.splits)

lemma fqdn_of_host: "take (Suc (length host)) (fqdn_of c host base) = host @ ''.''"
  by (simp add: fqdn_of_def Let_def)

section \<open>The claims\<close>

text \<open>
  C1. Claim: on a \<open>stop\<close>, \<open>destroy\<close>, \<open>kill\<close> or \<open>die\<close> event of a workload whose
  names were registered, with inspection succeeding, the registry entries of its names
  are deleted. The code: the removal in that branch is commented out (lines 235-241),
  so the event leaves the registry as it is, for every client, registry and workload
  (and for every function in the place of \<open>strings.ToLower\<close>).
  Here the workload \<open>web\<close> is registered by its \<open>start\<close> event, its inspection still
  succeeds and still gives the registered name, and each of the four events keeps the
  entry that \<open>removeDomains\<close>, which nothing calls, would delete.
\<close>

theorem stop_event_keeps_registry:
  "handle_event ToLower (\<lambda>_. Some web) (new_app [] False) \<lparr>ID = ''c1'', Action = ''start''\<rparr>
     = Inr web_registered
   \<and> fqdnToIp web_registered ''web.container'' = Some ''10.0.0.2''
   \<and> getDomains (\<lambda>_. Some web) ''c1'' (defaultBaseDomain web_registered) = Inr [''web.container'']
   \<and> handle_event ToLower (\<lambda>_. Some web) web_registered \<lparr>ID = ''c1'', Action = ''stop''\<rparr>
       = Inr web_registered
   \<and> fqdnToIp (removeDomains web_registered [''web.container'']) ''web.container'' = None
   \<and> handle_event ToLower client app \<lparr>ID = cid, Action = ''stop''\<rparr> = Inr app
   \<and> handle_event ToLower client app \<lparr>ID = cid, Action = ''destroy''\<rparr> = Inr app
   \<and> handle_event ToLower client app \<lparr>ID = cid, Action = ''kill''\<rparr> = Inr app
   \<and> handle_event ToLower client app \<lparr>ID = cid, Action = ''die''\<rparr> = Inr app"
proof -
  have start: "handle_event ToLower (\<lambda>_. Some web) (new_app [] False) \<lparr>ID = ''c1'', Action = ''start''\<rparr>
      = Inr web_registered"
    by (simp add: handle_event_def event_action_def getContainerIP_def getDomains_def
        public_hostname_def fqdn_of_def container_ip_def scan_ports_def registerDomains_def
        index_def Let_def example_defs label_defs)
  have entry: "fqdnToIp web_registered ''web.container'' = Some ''10.0.0.2''"
    by (simp add: example_defs)
  have again: "getDomains (\<lambda>_. Some web) ''c1'' (defaultBaseDomain web_registered)
      = Inr [''web.container'']"
    by (simp add: getDomains_def public_hostname_def fqdn_of_def index_def example_defs label_defs)
  have removed: "fqdnToIp (removeDomains web_registered [''web.container'']) ''web.container'' = None"
    by (simp add: removeDomains_apply)
  have events:
    "handle_event ToLower client app \<lparr>ID = cid, Action = ''stop''\<rparr> = Inr app"
    "handle_event ToLower client app \<lparr>ID = cid, Action = ''destroy''\<rparr> = Inr app"
    "handle_event ToLower client app \<lparr>ID = cid, Action = ''kill''\<rparr> = Inr app"
    "handle_event ToLower client app \<lparr>ID = cid, Action = ''die''\<rparr> = Inr app"
    for client app cid
    by (simp_all add: handle_event_def event_action_def)
  show ?thesis
    using start entry again removed events by simp
qed

text \<open>
  C2. Claim: registry keys are case-insensitive, \<open>Upsert\<close> storing them lower-cased and
  \<open>Lookup\<close> lower-casing its argument. The code: \<open>registerDomains\<close> stores each name as
  it is given and \<open>Resolve\<close> reads the map at the name as it is given, although the
  field is documented as resolving a lower case DNS name (line 65). After
  \<open>registerDomains ["a.b"] "10.0.0.1"\<close> the name \<open>A.B\<close> is not found and goes to the
  system's resolver; a name registered with a capital is not found in lower case. Only
  the name in the case it was registered with is found, and is gone after
  \<open>removeDomains\<close>.
\<close>

theorem lookup_is_case_sensitive:
  "index (fqdnToIp (registerDomains (new_app [] False) [''a.b''] ''10.0.0.1'')) ''a.b'' = ''10.0.0.1''
   \<and> index (fqdnToIp (registerDomains (new_app [] False) [''a.b''] ''10.0.0.1'')) ''A.B'' = []
   \<and> snd (Resolve resolver (registerDomains (new_app [] False) [''a.b''] ''10.0.0.1'') ''a.b'')
       = [''10.0.0.1'']
   \<and> snd (Resolve resolver (registerDomains (new_app [] False) [''a.b''] ''10.0.0.1'') ''A.B'')
       = [''A.B'']
   \<and> index (fqdnToIp (registerDomains (new_app [] False) [''Web.container''] ''10.0.0.1''))
         ''web.container'' = []
   \<and> index (fqdnToIp (removeDomains (registerDomains (new_app [] False) [''a.b''] ''10.0.0.1'')
         [''a.b''])) ''a.b'' = []"
  by (simp add: Resolve_def Let_def index_def registerDomains_apply removeDomains_apply new_app_def)

text \<open>
  C3. Claim: the address returned is the one on the attachment to the preferred
  network whenever there is one, in whatever order the attachments are enumerated, else
  the first non-empty address among the other attachments, else the first non-empty
  host address among the port bindings, else the empty string. The code's own comment
  (lines 276-280) gives the same order of preference, and its two \<open>break\<close>s miss it:
  \<^item> the \<open>break\<close> of lines 307-309 leaves the inner loop only, so the bindings of a
    port met later overwrite the address found before. \<open>two_ports\<close> has no address on
    a network and the host address \<open>192.168.1.4\<close> on the first of its ports; the
    second port's binding has none, and the empty string is returned;
  \<^item> the \<open>break\<close> of line 295 leaves the loop at the preferred attachment although
    its address is empty, before the attachments after it are seen. The same two
    attachments give \<open>10.0.0.5\<close> when \<open>bridge\<close> is met first and the empty string when
    \<open>cj-socks5\<close> is.
\<close>

theorem getContainerIP_first_address_missed:
  "getContainerIP ToLower (new_app [] False) (\<lambda>_. Some two_ports) ''c1'' = Inr []
   \<and> find (\<lambda>h. h \<noteq> []) (map HostIP (concat (map snd (Ports (NetworkSettings two_ports)))))
       = Some ''192.168.1.4''
   \<and> getContainerIP ToLower (new_app [] False) (\<lambda>_. Some two_nets) ''c1'' = Inr ''10.0.0.5''
   \<and> getContainerIP asciiToLower (new_app [] False) (\<lambda>_. Some two_nets_rev) ''c1'' = Inr []
   \<and> set (Networks (NetworkSettings two_nets_rev)) = set (Networks (NetworkSettings two_nets))"
proof -
  have ports: "getContainerIP ToLower (new_app [] False) (\<lambda>_. Some two_ports) ''c1'' = Inr []"
    by (simp add: getContainerIP_def container_ip_def scan_ports_def Let_def example_defs)
  have first: "find (\<lambda>h. h \<noteq> []) (map HostIP (concat (map snd (Ports (NetworkSettings two_ports)))))
      = Some ''192.168.1.4''"
    by (simp add: example_defs)
  have bridge_first:
    "getContainerIP ToLower (new_app [] False) (\<lambda>_. Some two_nets) ''c1'' = Inr ''10.0.0.5''"
    by (simp add: getContainerIP_def container_ip_def scan_ports_def Let_def example_defs)
  have preferred_first:
    "getContainerIP asciiToLower (new_app [] False) (\<lambda>_. Some two_nets_rev) ''c1'' = Inr []"
    by (simp add: getContainerIP_def container_ip_def scan_ports_def asciiToLower_def example_defs)
  have same: "set (Networks (NetworkSettings two_nets_rev)) = set (Networks (NetworkSettings two_nets))"
    by (auto simp: example_defs)
  show ?thesis
    using ports first bridge_first preferred_first same by simp
qed

text \<open>
  C4. \<open>registerDomains\<close> with the empty address returns the registry as it was. No
  value of the registry is the empty string: that holds of the registry \<open>main\<close> makes,
  and \<open>registerDomains\<close>, \<open>removeDomains\<close> and every turn of the event loop keep it
  (\<open>Resolve\<close> returns no registry: it cannot write one).
\<close>

theorem registerDomains_empty_address_noop:
  "registerDomains app domains [] = app
   \<and> [] \<notin> ran (fqdnToIp (new_app base autoadd))
   \<and> ([] \<notin> ran (fqdnToIp app) \<longrightarrow>
        [] \<notin> ran (fqdnToIp (registerDomains app domains ip))
        \<and> [] \<notin> ran (fqdnToIp (removeDomains app domains))
        \<and> (handle_event ToLower client app event = Inr app' \<longrightarrow> [] \<notin> ran (fqdnToIp app')))"
proof -
  have "registerDomains app domains [] = app"
    by (simp add: registerDomains_def)
  moreover have "[] \<notin> ran (fqdnToIp (new_app base autoadd))"
    by (simp add: new_app_def)
  ultimately show ?thesis
    using registerDomains_ran removeDomains_ran handle_event_ran by blast
qed

theorem registerDomains_empty_address_noop_witness:
  "registerDomains web_registered [''web.container'', ''a.b''] [] = web_registered
   \<and> [] \<notin> ran (fqdnToIp (new_app [] False))
   \<and> [] \<notin> ran (fqdnToIp (registerDomains web_registered [''web.container'', ''a.b''] ''10.0.0.3''))
   \<and> [] \<notin> ran (fqdnToIp (removeDomains web_registered [''web.container'', ''a.b'']))
   \<and> handle_event asciiToLower (\<lambda>_. Some web) (new_app [] False) \<lparr>ID = ''c1'', Action = ''start''\<rparr>
       = Inr web_registered
   \<and> [] \<notin> ran (fqdnToIp web_registered)"
proof -
  have start: "handle_event asciiToLower (\<lambda>_. Some web) (new_app [] False) \<lparr>ID = ''c1'', Action = ''start''\<rparr>
      = Inr web_registered"
    by (simp add: handle_event_def event_action_def getContainerIP_def getDomains_def
        public_hostname_def fqdn_of_def container_ip_def scan_ports_def registerDomains_def
        index_def asciiToLower_def example_defs label_defs)
  have new: "[] \<notin> ran (fqdnToIp (new_app [] False))"
    by (simp add: new_app_def)
  have inv: "[] \<notin> ran (fqdnToIp web_registered)"
    using start new
      registerDomains_empty_address_noop
        [where app = "new_app [] False" and domains = "[]" and base = "[]" and autoadd = False
           and ip = "[]" and ToLower = asciiToLower and client = "\<lambda>_. Some web"
           and event = "\<lparr>ID = ''c1'', Action = ''start''\<rparr>" and app' = web_registered]
    by simp
  show ?thesis
    using start new inv
      registerDomains_empty_address_noop
        [where app = web_registered and domains = "[''web.container'', ''a.b'']" and base = "[]"
           and autoadd = False and ip = "''10.0.0.3''" and ToLower = asciiToLower
           and client = "\<lambda>_. Some web"
           and event = "\<lparr>ID = ''c1'', Action = ''stop''\<rparr>" and app' = web_registered]
    by simp
qed

text \<open>
  C5. When the label \<open>use_container_base_domain\<close> is \<open>"true"\<close> and the container's domain
  name is not empty, the one name returned is the host part, a dot and that domain name:
  no label of a subdomain or a domain and no base domain enters it. (Without a host
  part, which is the empty container name of C7, the panic is passed on.)
\<close>

theorem getDomains_container_domain:
  assumes "client cid = Some c"
    and "index (Labels (Config c)) label_cj_flag_use_container_base_domain = ''true''"
    and "Domainname (Config c) \<noteq> []"
  shows "getDomains client cid base =
           (case public_hostname c of
              Inl e \<Rightarrow> Inl e
            | Inr host \<Rightarrow> Inr [host @ ''.'' @ Domainname (Config c)])"
  using assms by (simp add: getDomains_Some fqdn_of_def split: sum.splits)

theorem getDomains_container_domain_witness:
  "index (Labels (Config api)) label_cj_subdomain = ''admin''
   \<and> index (Labels (Config api)) label_cj_domain = ''internal''
   \<and> public_hostname api = Inr ''api''
   \<and> getDomains (\<lambda>_. Some api) ''c1'' ''container'' = Inr [''api.svc.local'']"
proof -
  have host: "public_hostname api = Inr ''api''"
    by (simp add: public_hostname_def index_def api_def label_defs)
  have "getDomains (\<lambda>_. Some api) ''c1'' ''container'' = Inr [''api.svc.local'']"
    using getDomains_container_domain [of "\<lambda>_. Some api" "''c1''" api "''container''"] host
    by (simp add: index_def api_def label_defs)
  then show ?thesis
    using host by (simp add: index_def api_def label_defs)
qed

text \<open>
  C6. In every other case the one name returned is the host part, a dot, the subdomain
  component and the domain tail: the component is the subdomain label and a dot, else
  the compose project label and a dot, else nothing; the tail is the domain label, else
  the container's domain name when the flag is \<open>"true"\<close> and that name is not empty, else
  the base domain. A label is present when its value is not the empty string, which is
  how the code reads it. The two workloads of the examples have the hostname Docker
  generates (12 characters) or none, and the slash Docker puts before the name; with
  another hostname the host part would be that hostname (C7).
\<close>

theorem getDomains_composed:
  assumes "client cid = Some c"
    and "\<not> (index (Labels (Config c)) label_cj_flag_use_container_base_domain = ''true''
            \<and> Domainname (Config c) \<noteq> [])"
  shows
    "(public_hostname c = Inr host \<longrightarrow>
        getDomains client cid base =
          Inr [host @ ''.''
               @ (if index (Labels (Config c)) label_cj_subdomain \<noteq> []
                  then index (Labels (Config c)) label_cj_subdomain @ ''.''
                  else if index (Labels (Config c)) label_docker_compose_project \<noteq> []
                  then index (Labels (Config c)) label_docker_compose_project @ ''.''
                  else [])
               @ (if index (Labels (Config c)) label_cj_domain \<noteq> []
                  then index (Labels (Config c)) label_cj_domain
                  else if index (Labels (Config c)) label_cj_flag_use_container_base_domain = ''true''
                          \<and> Domainname (Config c) \<noteq> []
                  then Domainname (Config c)
                  else base)])
   \<and> (index (Labels (Config c)) label_cj_hostname = []
        \<and> index (Labels (Config c)) label_docker_compose_service = []
        \<and> index (Labels (Config c)) label_cj_subdomain = []
        \<and> index (Labels (Config c)) label_docker_compose_project = []
        \<and> index (Labels (Config c)) label_cj_domain = []
        \<and> (Hostname (Config c) = [] \<or> length (Hostname (Config c)) = 12)
        \<and> Name c = ''/svcweb''
      \<longrightarrow> getDomains client cid ''container'' = Inr [''svcweb.container''])
   \<and> (index (Labels (Config c)) label_cj_hostname = []
        \<and> index (Labels (Config c)) label_docker_compose_service = []
        \<and> index (Labels (Config c)) label_cj_subdomain = []
        \<and> index (Labels (Config c)) label_docker_compose_project = ''shop''
        \<and> index (Labels (Config c)) label_cj_domain = []
        \<and> (Hostname (Config c) = [] \<or> length (Hostname (Config c)) = 12)
        \<and> Name c = ''/web''
      \<longrightarrow> getDomains client cid ''container'' = Inr [''web.shop.container''])"
proof -
  have general: "getDomains client cid base =
      Inr [host @ ''.''
           @ (if index (Labels (Config c)) label_cj_subdomain \<noteq> []
              then index (Labels (Config c)) label_cj_subdomain @ ''.''
              else if index (Labels (Config c)) label_docker_compose_project \<noteq> []
              then index (Labels (Config c)) label_docker_compose_project @ ''.''
              else [])
           @ (if index (Labels (Config c)) label_cj_domain \<noteq> []
              then index (Labels (Config c)) label_cj_domain
              else if index (Labels (Config c)) label_cj_flag_use_container_base_domain = ''true''
                      \<and> Domainname (Config c) \<noteq> []
              then Domainname (Config c)
              else base)]"
    if "public_hostname c = Inr host" for host base
    using assms that by (auto simp: getDomains_Some fqdn_of_def Let_def)
  have svcweb: "getDomains client cid ''container'' = Inr [''svcweb.container'']"
    if "index (Labels (Config c)) label_cj_hostname = []"
      "index (Labels (Config c)) label_docker_compose_service = []"
      "index (Labels (Config c)) label_cj_subdomain = []"
      "index (Labels (Config c)) label_docker_compose_project = []"
      "index (Labels (Config c)) label_cj_domain = []"
      "Hostname (Config c) = [] \<or> length (Hostname (Config c)) = 12"
      "Name c = ''/svcweb''"
  proof -
    have "public_hostname c = Inr ''svcweb''"
      using that by (auto simp: public_hostname_def)
    then show ?thesis
      using assms(2) that by (simp add: general)
  qed
  have shop: "getDomains client cid ''container'' = Inr [''web.shop.container'']"
    if "index (Labels (Config c)) label_cj_hostname = []"
      "index (Labels (Config c)) label_docker_compose_service = []"
      "index (Labels (Config c)) label_cj_subdomain = []"
      "index (Labels (Config c)) label_docker_compose_project = ''shop''"
      "index (Labels (Config c)) label_cj_domain = []"
      "Hostname (Config c) = [] \<or> length (Hostname (Config c)) = 12"
      "Name c = ''/web''"
  proof -
    have "public_hostname c = Inr ''web''"
      using that by (auto simp: public_hostname_def)
    then show ?thesis
      using assms(2) that by (simp add: general)
  qed
  show ?thesis
    using general svcweb shop by blast
qed

theorem getDomains_composed_witness:
  "getDomains (\<lambda>_. Some svcweb) ''c1'' ''container'' = Inr [''svcweb.container'']
   \<and> getDomains (\<lambda>_. Some shop_web) ''c1'' ''container'' = Inr [''web.shop.container'']
   \<and> getDomains (\<lambda>_. Some named_host) ''c1'' ''cjsocks'' = Inr [''db.cjsocks'']"
proof -
  have 1: "getDomains (\<lambda>_. Some svcweb) ''c1'' ''container'' = Inr [''svcweb.container'']"
    using getDomains_composed
      [where client = "\<lambda>_. Some svcweb" and cid = "''c1''" and c = svcweb,
       THEN conjunct2, THEN conjunct1]
    by (simp add: index_def example_defs label_defs)
  have 2: "getDomains (\<lambda>_. Some shop_web) ''c1'' ''container'' = Inr [''web.shop.container'']"
    using getDomains_composed
      [where client = "\<lambda>_. Some shop_web" and cid = "''c1''" and c = shop_web,
       THEN conjunct2, THEN conjunct2]
    by (simp add: index_def example_defs label_defs)
  have host: "public_hostname named_host = Inr ''db''"
    by (simp add: public_hostname_def index_def example_defs label_defs)
  have 3: "getDomains (\<lambda>_. Some named_host) ''c1'' ''cjsocks'' = Inr [''db.cjsocks'']"
    using host getDomains_composed
      [where client = "\<lambda>_. Some named_host" and cid = "''c1''" and c = named_host
         and host = "''db''" and base = "''cjsocks''", THEN conjunct1]
    by (simp add: index_def example_defs label_defs)
  show ?thesis
    using 1 2 3 by simp
qed

text \<open>
  C7. With no host-name label and no compose-service label (absent or empty), the host
  part is the hostname exactly when the hostname is not empty and not 12 bytes long,
  whatever its characters; otherwise it is the container's name without its first
  character, the slash Docker puts there, and on the empty name, which has no first
  character, the slice expression panics. The name returned begins with that host part
  and a dot.
\<close>

theorem public_hostname_precedence:
  assumes "index (Labels (Config c)) label_cj_hostname = []"
    and "index (Labels (Config c)) label_docker_compose_service = []"
  shows
    "(Hostname (Config c) \<noteq> [] \<and> length (Hostname (Config c)) \<noteq> 12
      \<longrightarrow> public_hostname c = Inr (Hostname (Config c)))
   \<and> ((Hostname (Config c) = [] \<or> length (Hostname (Config c)) = 12) \<and> Name c = sep # rest
      \<longrightarrow> public_hostname c = Inr rest)
   \<and> ((Hostname (Config c) = [] \<or> length (Hostname (Config c)) = 12) \<and> Name c = []
      \<longrightarrow> public_hostname c = Inl SliceBoundsOutOfRange)
   \<and> (client cid = Some c \<and> public_hostname c = Inr host
      \<longrightarrow> getDomains client cid base = Inr [fqdn_of c host base]
          \<and> take (length host + 1) (fqdn_of c host base) = host @ ''.'')"
  using assms
  by (auto simp: public_hostname_def getDomains_Some fqdn_of_host)

theorem public_hostname_precedence_witness:
  "public_hostname named_host = Inr ''db''
   \<and> length (Hostname (Config twelve_host)) = 12
   \<and> public_hostname twelve_host = Inr ''web''
   \<and> public_hostname (web\<lparr>Name := []\<rparr>) = Inl SliceBoundsOutOfRange
   \<and> getDomains (\<lambda>_. Some twelve_host) ''c1'' ''container'' = Inr [''web.container'']"
proof -
  have 1: "public_hostname named_host = Inr ''db''"
    using public_hostname_precedence [where c = named_host, THEN conjunct1]
    by (simp add: index_def example_defs label_defs)
  have 2: "public_hostname twelve_host = Inr ''web''"
    using public_hostname_precedence
      [where c = twelve_host and sep = "CHR ''/''" and rest = "''web''",
       THEN conjunct2, THEN conjunct1]
    by (simp add: index_def example_defs label_defs)
  have 3: "public_hostname (web\<lparr>Name := []\<rparr>) = Inl SliceBoundsOutOfRange"
    using public_hostname_precedence
      [where c = "web\<lparr>Name := []\<rparr>", THEN conjunct2, THEN conjunct2, THEN conjunct1]
    by (simp add: index_def example_defs label_defs)
  have 4: "getDomains (\<lambda>_. Some twelve_host) ''c1'' ''container'' = Inr [''web.container'']"
    using 2 public_hostname_precedence
      [where c = twelve_host and client = "\<lambda>_. Some twelve_host" and cid = "''c1''"
         and host = "''web''" and base = "''container''",
       THEN conjunct2, THEN conjunct2, THEN conjunct2]
    by (simp add: index_def fqdn_of_def example_defs label_defs)
  show ?thesis
    using 1 2 3 4 by (simp add: example_defs)
qed

text \<open>
  C8. For a name the registry maps to a non-empty address, the one string \<open>Resolve\<close>
  hands to the resolver is the stored address, not the name, and the result is the
  resolver's for that address: its error, or the \<open>IP\<close> of its answer. For a name the
  registry does not hold, the one string handed to the resolver is the name as given,
  and the result is the resolver's for it.
\<close>

theorem Resolve_registry_first:
  "(fqdnToIp app name = Some ip \<and> ip \<noteq> [] \<longrightarrow>
      Resolve resolver app name =
        (case resolver ip of Inl err \<Rightarrow> Inl err | Inr addr \<Rightarrow> Inr (IP addr), [ip]))
   \<and> (fqdnToIp app name = None \<longrightarrow>
      Resolve resolver app name =
        (case resolver name of Inl err \<Rightarrow> Inl err | Inr addr \<Rightarrow> Inr (IP addr), [name]))"
  by (simp add: Resolve_def index_def Let_def)

theorem Resolve_registry_first_witness:
  "Resolve one_address web_registered ''web.container'' = (Inr [10, 0, 0, 2], [''10.0.0.2''])
   \<and> Resolve one_address web_registered ''db.container''
       = (Inl ''no such host'', [''db.container''])
   \<and> Resolve one_address web_registered ''10.0.0.2'' = (Inr [10, 0, 0, 2], [''10.0.0.2''])"
proof -
  have 1: "Resolve one_address web_registered ''web.container''
      = (Inr [10, 0, 0, 2], [''10.0.0.2''])"
    using Resolve_registry_first
      [where app = web_registered and name = "''web.container''" and ip = "''10.0.0.2''"
         and resolver = one_address, THEN conjunct1]
    by (simp add: one_address_def example_defs)
  have 2: "Resolve one_address web_registered ''db.container''
      = (Inl ''no such host'', [''db.container''])"
    using Resolve_registry_first
      [where app = web_registered and name = "''db.container''" and resolver = one_address,
       THEN conjunct2]
    by (simp add: one_address_def example_defs)
  have 3: "Resolve one_address web_registered ''10.0.0.2'' = (Inr [10, 0, 0, 2], [''10.0.0.2''])"
    using Resolve_registry_first
      [where app = web_registered and name = "''10.0.0.2''" and resolver = one_address,
       THEN conjunct2]
    by (simp add: one_address_def example_defs)
  show ?thesis
    using 1 2 3 by simp
qed

text \<open>
  C10. \<open>registerDomains\<close> and \<open>removeDomains\<close> leave every name that is not in their
  list as it was, present with its address or absent, and change no other field of the
  application's state.
\<close>

theorem registry_frame:
  "(k \<notin> set domains \<longrightarrow>
      fqdnToIp (registerDomains app domains ip) k = fqdnToIp app k
      \<and> fqdnToIp (removeDomains app domains) k = fqdnToIp app k)
   \<and> registerDomains app domains ip = app\<lparr>fqdnToIp := fqdnToIp (registerDomains app domains ip)\<rparr>
   \<and> removeDomains app domains = app\<lparr>fqdnToIp := fqdnToIp (removeDomains app domains)\<rparr>"
  by (simp add: registerDomains_apply removeDomains_apply)
    (simp add: registerDomains_def removeDomains_def)

theorem registry_frame_witness:
  "fqdnToIp (registerDomains web_registered [''a.b'', ''c.d''] ''10.0.0.3'') ''web.container''
     = Some ''10.0.0.2''
   \<and> fqdnToIp (removeDomains web_registered [''a.b'', ''c.d'']) ''web.container''
     = Some ''10.0.0.2''
   \<and> fqdnToIp (registerDomains web_registered [''a.b'', ''c.d''] ''10.0.0.3'') ''e.f'' = None
   \<and> fqdnToIp (removeDomains web_registered [''a.b'', ''c.d'']) ''e.f'' = None"
proof -
  have 1: "fqdnToIp (registerDomains web_registered [''a.b'', ''c.d''] ''10.0.0.3'') ''web.container''
        = Some ''10.0.0.2''
      \<and> fqdnToIp (removeDomains web_registered [''a.b'', ''c.d'']) ''web.container''
        = Some ''10.0.0.2''"
    using registry_frame
      [where k = "''web.container''" and domains = "[''a.b'', ''c.d'']" and app = web_registered
         and ip = "''10.0.0.3''", THEN conjunct1]
    by (simp add: example_defs)
  have 2: "fqdnToIp (registerDomains web_registered [''a.b'', ''c.d''] ''10.0.0.3'') ''e.f'' = None
      \<and> fqdnToIp (removeDomains web_registered [''a.b'', ''c.d'']) ''e.f'' = None"
    using registry_frame
      [where k = "''e.f''" and domains = "[''a.b'', ''c.d'']" and app = web_registered
         and ip = "''10.0.0.3''", THEN conjunct1]
    by (simp add: example_defs)
  show ?thesis
    using 1 2 by simp
qed

text \<open>
  C9 speaks of the interleavings of the event loop's writes with the reads of concurrent
  \<open>Resolve\<close> calls on one Go map. The functions above are the sequential steps of each
  side; their interleaving is not modelled here.
\<close>

end
